theory Spec2Isabelle
  imports Main
begin

section \<open>The notifications page of the collaboration client\<close>

text \<open>
  A shallow embedding of the React component \<^verbatim>\<open>Notifications\<close>
  (\<^verbatim>\<open>components/Dashboard/notifications/Notifications.js\<close>) and of the service
  module it calls (\<^verbatim>\<open>services/notificationsService\<close>).

  \<^item> A notification is a JavaScript object received from the server. The fields the
    component reads are the fields of the record \<open>notification\<close>; the record is
    extensible, so the spread \<^verbatim>\<open>{ ...n, is_read: true }\<close> is the record update
    \<open>n\<lparr>is_read := True\<rparr>\<close>, which keeps every other field, named or not.
  \<^item> \<^verbatim>\<open>null\<close>/\<^verbatim>\<open>undefined\<close> is \<open>None\<close>; \<^verbatim>\<open>is_read\<close> and
    \<^verbatim>\<open>accepted\<close> are booleans, as the server sends them.
  \<^item> An \<^verbatim>\<open>async\<close> handler is cut at its \<^verbatim>\<open>await\<close>: the part that runs up to
    the service call (\<open>_call\<close>, which also returns the request it issues), the part
    that runs when the promise resolves (\<open>_resolved\<close>) and the \<^verbatim>\<open>catch\<close> branch
    (\<open>_rejected\<close>). Other handlers may run between the parts.
  \<^item> \<^verbatim>\<open>this.setState(updater)\<close> applies the updater to the current state; an object
    argument is the updater that overwrites the listed fields.
\<close>

subsection \<open>Data\<close>

record project =
  name :: string

record invitation =
  accepted :: bool

record ('i, 'p) notification =
  id_n :: nat
  is_read :: bool
  invitation :: "'i invitation_scheme option"
  notification_type :: string
  project :: "'p project_scheme option"
  title :: string
  message :: string
  created_at :: string

type_synonym ('i, 'p, 'z) notif = "('i, 'p, 'z) notification_scheme"

text \<open>\<^verbatim>\<open>this.state\<close>, with the fields the constructor gives it.\<close>

record ('i, 'p, 'z) state =
  notifications :: "('i, 'p, 'z) notif list"
  loading :: bool
  error :: "string option"
  info :: "string option"
  acceptingId :: "nat option"
  markingIds :: "nat set"
  markAllInProgress :: bool

text \<open>The component instance: \<^verbatim>\<open>this.state\<close> and \<^verbatim>\<open>this._isMounted\<close>.\<close>

record ('i, 'p, 'z) component =
  state :: "('i, 'p, 'z) state"
  isMounted :: bool

definition constructor :: "('i, 'p, 'z) component" where
  "constructor =
     \<lparr>state = \<lparr>notifications = [], loading = True, error = None, info = None,
               acceptingId = None, markingIds = {}, markAllInProgress = False\<rparr>,
      isMounted = False\<rparr>"

subsection \<open>The service module\<close>

text \<open>The four requests of \<^verbatim>\<open>notificationsService\<close>; each is one HTTP call.\<close>

datatype request =
  FetchNotifications
  | MarkNotificationRead nat
  | MarkAllNotificationsRead
  | AcceptProjectInvitation nat

text \<open>
  How an awaited service call ends: the promise resolves with the response data, or it
  rejects with an error, of which the handlers read only
  \<^verbatim>\<open>error?.response?.data?.detail\<close> (\<open>None\<close> when any link of the chain is missing).
\<close>

datatype 'a response = Resolved 'a | Rejected "string option"

text \<open>\<^verbatim>\<open>detail || fallback\<close>: a missing or empty detail is falsy.\<close>

definition detail_or :: "string option \<Rightarrow> string \<Rightarrow> string" where
  "detail_or detail fallback =
     (case detail of
        None \<Rightarrow> fallback
      | Some d \<Rightarrow> if d = [] then fallback else d)"

subsection \<open>State updates\<close>

definition setStateSafely ::
  "(('i, 'p, 'z) state \<Rightarrow> ('i, 'p, 'z) state) \<Rightarrow> ('i, 'p, 'z) component \<Rightarrow> ('i, 'p, 'z) component" where
  "setStateSafely updater c =
     (if isMounted c then c\<lparr>state := updater (state c)\<rparr> else c)"

definition componentWillUnmount :: "('i, 'p, 'z) component \<Rightarrow> ('i, 'p, 'z) component" where
  "componentWillUnmount c = c\<lparr>isMounted := False\<rparr>"

subsection \<open>loadNotifications\<close>

definition loadNotifications_call ::
  "('i, 'p, 'z) component \<Rightarrow> ('i, 'p, 'z) component \<times> request option" where
  "loadNotifications_call c =
     (setStateSafely (\<lambda>s. s\<lparr>loading := True, error := None, info := None\<rparr>) c,
      Some FetchNotifications)"

definition loadNotifications_resolved ::
  "('i, 'p, 'z) component \<Rightarrow> ('i, 'p, 'z) notif list \<Rightarrow> ('i, 'p, 'z) component" where
  "loadNotifications_resolved c data =
     setStateSafely (\<lambda>s. s\<lparr>notifications := data, loading := False\<rparr>) c"

definition loadNotifications_rejected ::
  "('i, 'p, 'z) component \<Rightarrow> string option \<Rightarrow> ('i, 'p, 'z) component" where
  "loadNotifications_rejected c detail =
     setStateSafely
       (\<lambda>s. s\<lparr>error := Some (detail_or detail ''Unable to load notifications.''),
              loading := False\<rparr>) c"

text \<open>\<^verbatim>\<open>componentDidMount\<close> sets the flag and starts the first fetch.\<close>

definition componentDidMount ::
  "('i, 'p, 'z) component \<Rightarrow> ('i, 'p, 'z) component \<times> request option" where
  "componentDidMount c = loadNotifications_call (c\<lparr>isMounted := True\<rparr>)"

subsection \<open>handleMarkRead\<close>

definition handleMarkRead_call ::
  "('i, 'p, 'z) component \<Rightarrow> ('i, 'p, 'z) notif \<Rightarrow> ('i, 'p, 'z) component \<times> request option" where
  "handleMarkRead_call c notification =
     (if is_read notification then (c, None)
      else (setStateSafely
              (\<lambda>s. s\<lparr>markingIds := insert (id_n notification) (markingIds s)\<rparr>) c,
            Some (MarkNotificationRead (id_n notification))))"

definition handleMarkRead_resolved ::
  "('i, 'p, 'z) component \<Rightarrow> ('i, 'p, 'z) notif \<Rightarrow> ('i, 'p, 'z) component" where
  "handleMarkRead_resolved c notification =
     setStateSafely
       (\<lambda>s. s\<lparr>notifications :=
                 map (\<lambda>n. if id_n n = id_n notification then n\<lparr>is_read := True\<rparr> else n)
                   (notifications s),
              markingIds := markingIds s - {id_n notification}\<rparr>) c"

definition handleMarkRead_rejected ::
  "('i, 'p, 'z) component \<Rightarrow> ('i, 'p, 'z) notif \<Rightarrow> string option \<Rightarrow> ('i, 'p, 'z) component" where
  "handleMarkRead_rejected c notification detail =
     setStateSafely
       (\<lambda>s. s\<lparr>error := Some (detail_or detail ''Unable to mark notification as read.''),
              markingIds := markingIds s - {id_n notification}\<rparr>) c"

text \<open>The whole handler when nothing else runs during the \<^verbatim>\<open>await\<close>.\<close>

definition handleMarkRead ::
  "('i, 'p, 'z) component \<Rightarrow> ('i, 'p, 'z) notif \<Rightarrow> unit response
     \<Rightarrow> ('i, 'p, 'z) component \<times> request option" where
  "handleMarkRead c notification r =
     (case handleMarkRead_call c notification of
        (c', None) \<Rightarrow> (c', None)
      | (c', Some q) \<Rightarrow>
          (case r of
             Resolved _ \<Rightarrow> (handleMarkRead_resolved c' notification, Some q)
           | Rejected detail \<Rightarrow> (handleMarkRead_rejected c' notification detail, Some q)))"

subsection \<open>handleMarkAll\<close>

definition handleMarkAll_call ::
  "('i, 'p, 'z) component \<Rightarrow> ('i, 'p, 'z) component \<times> request option" where
  "handleMarkAll_call c =
     (setStateSafely (\<lambda>s. s\<lparr>markAllInProgress := True, error := None, info := None\<rparr>) c,
      Some MarkAllNotificationsRead)"

definition handleMarkAll_resolved :: "('i, 'p, 'z) component \<Rightarrow> ('i, 'p, 'z) component" where
  "handleMarkAll_resolved c =
     setStateSafely
       (\<lambda>s. s\<lparr>notifications := map (\<lambda>n. n\<lparr>is_read := True\<rparr>) (notifications s),
              markAllInProgress := False,
              info := Some ''All notifications marked as read.''\<rparr>) c"

definition handleMarkAll_rejected ::
  "('i, 'p, 'z) component \<Rightarrow> string option \<Rightarrow> ('i, 'p, 'z) component" where
  "handleMarkAll_rejected c detail =
     setStateSafely
       (\<lambda>s. s\<lparr>error := Some (detail_or detail ''Unable to mark all notifications as read.''),
              markAllInProgress := False\<rparr>) c"


subsection \<open>handleAcceptInvitation\<close>

text \<open>\<^verbatim>\<open>notification?.project?.name || ''\<close>\<close>

definition project_name :: "('i, 'p, 'z) notif \<Rightarrow> string" where
  "project_name notification =
     (case project notification of None \<Rightarrow> [] | Some p \<Rightarrow> name p)"

definition joined_message :: "('i, 'p, 'z) notif \<Rightarrow> string" where
  "joined_message notification =
     ''You have joined the project '' @ [CHR 0x22] @ project_name notification
       @ [CHR 0x22] @ ''.''"

definition handleAcceptInvitation_call ::
  "('i, 'p, 'z) component \<Rightarrow> ('i, 'p, 'z) notif \<Rightarrow> ('i, 'p, 'z) component \<times> request option" where
  "handleAcceptInvitation_call c notification =
     (setStateSafely
        (\<lambda>s. s\<lparr>acceptingId := Some (id_n notification), error := None, info := None\<rparr>) c,
      Some (AcceptProjectInvitation (id_n notification)))"

definition accept_locally :: "('i, 'p, 'z) notif \<Rightarrow> ('i, 'p, 'z) notif" where
  "accept_locally n =
     n\<lparr>is_read := True,
       invitation :=
         (case invitation n of
            Some i \<Rightarrow> Some (i\<lparr>accepted := True\<rparr>)
          | None \<Rightarrow> invitation n)\<rparr>"

definition handleAcceptInvitation_resolved ::
  "('i, 'p, 'z) component \<Rightarrow> ('i, 'p, 'z) notif \<Rightarrow> ('i, 'p, 'z) component" where
  "handleAcceptInvitation_resolved c notification =
     setStateSafely
       (\<lambda>s. s\<lparr>notifications :=
                 map (\<lambda>n. if id_n n = id_n notification then accept_locally n else n)
                   (notifications s),
              acceptingId := None,
              info := Some (joined_message notification)\<rparr>) c"

definition handleAcceptInvitation_rejected ::
  "('i, 'p, 'z) component \<Rightarrow> ('i, 'p, 'z) notif \<Rightarrow> string option \<Rightarrow> ('i, 'p, 'z) component" where
  "handleAcceptInvitation_rejected c notification detail =
     setStateSafely
       (\<lambda>s. s\<lparr>error := Some (detail_or detail ''Unable to accept invitation.''),
              acceptingId := None\<rparr>) c"

definition handleAcceptInvitation ::
  "('i, 'p, 'z) component \<Rightarrow> ('i, 'p, 'z) notif \<Rightarrow> unit response
     \<Rightarrow> ('i, 'p, 'z) component \<times> request option" where
  "handleAcceptInvitation c notification r =
     (case handleAcceptInvitation_call c notification of
        (c', q) \<Rightarrow>
          (case r of
             Resolved _ \<Rightarrow> (handleAcceptInvitation_resolved c' notification, q)
           | Rejected detail \<Rightarrow> (handleAcceptInvitation_rejected c' notification detail, q)))"

subsection \<open>Rendering\<close>

text \<open>
  Of a rendered \<^verbatim>\<open>Button\<close> the model keeps the handler its \<^verbatim>\<open>onClick\<close> calls and
  its \<^verbatim>\<open>disabled\<close> attribute (the label is left out).
\<close>

datatype action = AcceptInvitation | MarkRead

record button =
  onClick :: action
  disabled :: bool

definition renderNotificationActions ::
  "('i, 'p, 'z) state \<Rightarrow> ('i, 'p, 'z) notif \<Rightarrow> button list" where
  "renderNotificationActions s notification =
     (let isMarking = (id_n notification \<in> markingIds s) in
      if notification_type notification = ''project_invitation''
         \<and> (case invitation notification of None \<Rightarrow> False | Some i \<Rightarrow> \<not> accepted i)
      then [\<lparr>onClick = AcceptInvitation, disabled = (acceptingId s = Some (id_n notification))\<rparr>,
            \<lparr>onClick = MarkRead, disabled = isMarking\<rparr>]
      else [\<lparr>onClick = MarkRead, disabled = (is_read notification \<or> isMarking)\<rparr>])"

text \<open>
  A click on a rendered button: a disabled button delivers no click, so its handler does
  not run; an enabled one runs its handler up to the service call.
\<close>

definition click ::
  "('i, 'p, 'z) component \<Rightarrow> ('i, 'p, 'z) notif \<Rightarrow> button
     \<Rightarrow> ('i, 'p, 'z) component \<times> request option" where
  "click c notification b =
     (if disabled b then (c, None)
      else (case onClick b of
              AcceptInvitation \<Rightarrow> handleAcceptInvitation_call c notification
            | MarkRead \<Rightarrow> handleMarkRead_call c notification))"

text \<open>
  The alerts of \<^verbatim>\<open>render\<close>: \<^verbatim>\<open>error && <Alert color="danger">\<close> and
  \<^verbatim>\<open>info && <Alert color="success">\<close>; an empty string is falsy. (The state has no
  \<^verbatim>\<open>instructions\<close> field, so the third alert is never shown.)
\<close>

datatype color = danger | success

definition alert :: "color \<Rightarrow> string option \<Rightarrow> (color \<times> string) list" where
  "alert col v =
     (case v of
        None \<Rightarrow> []
      | Some t \<Rightarrow> if t = [] then [] else [(col, t)])"

definition alerts :: "('i, 'p, 'z) state \<Rightarrow> (color \<times> string) list" where
  "alerts s = alert danger (error s) @ alert success (info s)"

subsection \<open>Events of the component, in any interleaving\<close>

datatype ('i, 'p, 'z) event =
  DidMount
  | WillUnmount
  | LoadCall
  | LoadResolved "('i, 'p, 'z) notif list"
  | LoadRejected "string option"
  | MarkReadCall "('i, 'p, 'z) notif"
  | MarkReadResolved "('i, 'p, 'z) notif"
  | MarkReadRejected "('i, 'p, 'z) notif" "string option"
  | MarkAllCall
  | MarkAllResolved
  | MarkAllRejected "string option"
  | AcceptCall "('i, 'p, 'z) notif"
  | AcceptResolved "('i, 'p, 'z) notif"
  | AcceptRejected "('i, 'p, 'z) notif" "string option"
  | ToggleError
  | ToggleInfo

fun step :: "('i, 'p, 'z) component \<Rightarrow> ('i, 'p, 'z) event \<Rightarrow> ('i, 'p, 'z) component" where
  "step c DidMount = fst (componentDidMount c)"
| "step c WillUnmount = componentWillUnmount c"
| "step c LoadCall = fst (loadNotifications_call c)"
| "step c (LoadResolved data) = loadNotifications_resolved c data"
| "step c (LoadRejected detail) = loadNotifications_rejected c detail"
| "step c (MarkReadCall n) = fst (handleMarkRead_call c n)"
| "step c (MarkReadResolved n) = handleMarkRead_resolved c n"
| "step c (MarkReadRejected n detail) = handleMarkRead_rejected c n detail"
| "step c MarkAllCall = fst (handleMarkAll_call c)"
| "step c MarkAllResolved = handleMarkAll_resolved c"
| "step c (MarkAllRejected detail) = handleMarkAll_rejected c detail"
| "step c (AcceptCall n) = fst (handleAcceptInvitation_call c n)"
| "step c (AcceptResolved n) = handleAcceptInvitation_resolved c n"
| "step c (AcceptRejected n detail) = handleAcceptInvitation_rejected c n detail"
| "step c ToggleError = setStateSafely (\<lambda>s. s\<lparr>error := None\<rparr>) c"
| "step c ToggleInfo = setStateSafely (\<lambda>s. s\<lparr>info := None\<rparr>) c"

fun run :: "('i, 'p, 'z) component \<Rightarrow> ('i, 'p, 'z) event list \<Rightarrow> ('i, 'p, 'z) component" where
  "run c [] = c"
| "run c (e # es) = run (step c e) es"

subsection \<open>Comparing a notification before and after\<close>

text \<open>
  \<open>not_reduced before after\<close>: the same notification, with neither flag gone back from
  true to false.
\<close>

definition not_reduced :: "('i, 'p, 'z) notif \<Rightarrow> ('i, 'p, 'z) notif \<Rightarrow> bool" where
  "not_reduced before after =
     (id_n after = id_n before
      \<and> (is_read before \<longrightarrow> is_read after)
      \<and> (case invitation before of
            None \<Rightarrow> True
          | Some i \<Rightarrow>
              accepted i \<longrightarrow>
                (case invitation after of None \<Rightarrow> False | Some i' \<Rightarrow> accepted i')))"

text \<open>The only event that installs a list sent by the server.\<close>

fun replaces_list :: "('i, 'p, 'z) event \<Rightarrow> bool" where
  "replaces_list (LoadResolved data) = True"
| "replaces_list e = False"


subsection \<open>The server side of mark-all-read\<close>







subsection \<open>A page with three notifications\<close>

definition example_invitation :: "(unit, unit, unit) notif" where
  "example_invitation =
     \<lparr>id_n = 1, is_read = False, invitation = Some \<lparr>accepted = False\<rparr>,
      notification_type = ''project_invitation'', project = Some \<lparr>name = ''Apollo''\<rparr>,
      title = ''Invitation'', message = ''Join the project'', created_at = ''2024-05-01''\<rparr>"

definition example_mention :: "(unit, unit, unit) notif" where
  "example_mention =
     \<lparr>id_n = 2, is_read = True, invitation = None,
      notification_type = ''mention'', project = None,
      title = ''Mention'', message = ''You were mentioned'', created_at = ''2024-05-02''\<rparr>"

definition example_task :: "(unit, unit, unit) notif" where
  "example_task =
     \<lparr>id_n = 3, is_read = False, invitation = None,
      notification_type = ''task_assigned'', project = Some \<lparr>name = ''Apollo''\<rparr>,
      title = ''Task'', message = ''A task was assigned'', created_at = ''2024-05-03''\<rparr>"

definition example_component :: "(unit, unit, unit) component" where
  "example_component =
     \<lparr>state = \<lparr>notifications = [example_invitation, example_mention, example_task],
               loading = False, error = None, info = None,
               acceptingId = None, markingIds = {}, markAllInProgress = False\<rparr>,
      isMounted = True\<rparr>"

text \<open>The same page while a mark-read of 3 and an accept of 1 are outstanding.\<close>

definition example_in_flight :: "(unit, unit, unit) component" where
  "example_in_flight =
     \<lparr>state = \<lparr>notifications = [example_invitation, example_mention, example_task],
               loading = False, error = None, info = None,
               acceptingId = Some 1, markingIds = {3}, markAllInProgress = False\<rparr>,
      isMounted = True\<rparr>"

text \<open>The page after the invitation has been accepted.\<close>

definition example_joined :: "(unit, unit, unit) notif" where
  "example_joined =
     \<lparr>id_n = 1, is_read = True, invitation = Some \<lparr>accepted = True\<rparr>,
      notification_type = ''project_invitation'', project = Some \<lparr>name = ''Apollo''\<rparr>,
      title = ''Invitation'', message = ''Join the project'', created_at = ''2024-05-01''\<rparr>"

definition example_after_accept :: "(unit, unit, unit) component" where
  "example_after_accept =
     \<lparr>state = \<lparr>notifications = [example_joined, example_mention, example_task],
               loading = False, error = None, info = None,
               acceptingId = None, markingIds = {}, markAllInProgress = False\<rparr>,
      isMounted = True\<rparr>"

text \<open>An interleaving of the three mutation handlers, with successes and failures.\<close>

definition example_events :: "(unit, unit, unit) event list" where
  "example_events =
     [MarkReadCall example_task, AcceptCall example_invitation, MarkAllCall,
      MarkReadResolved example_task, AcceptRejected example_invitation (Some ''Forbidden''),
      MarkAllRejected None, AcceptCall example_invitation,
      AcceptResolved example_invitation, MarkReadRejected example_mention None]"

text \<open>Completions that arrive late: a mark-read, an accept, a fetch, a mark-all.\<close>

definition example_completions :: "(unit, unit, unit) event list" where
  "example_completions =
     [MarkReadResolved example_task, AcceptResolved example_invitation,
      LoadResolved [], MarkAllRejected None]"



section \<open>Basic facts\<close>

lemma setStateSafely_unmounted: "\<not> isMounted c \<Longrightarrow> setStateSafely u c = c"
  by (simp add: setStateSafely_def)

lemma state_setStateSafely:
  "state (setStateSafely u c) = (if isMounted c then u (state c) else state c)"
  by (simp add: setStateSafely_def)

lemma isMounted_setStateSafely: "isMounted (setStateSafely u c) = isMounted c"
  by (simp add: setStateSafely_def)

lemma detail_or_nonempty: "fallback \<noteq> [] \<Longrightarrow> detail_or detail fallback \<noteq> []"
  by (simp add: detail_or_def split: option.splits)

lemma alert_danger_shown: "t \<noteq> [] \<Longrightarrow> (danger, t) \<in> set (alert danger (Some t))"
  by (simp add: alert_def)

section \<open>After unmounting (C10)\<close>

lemma step_unmounted: "\<not> isMounted c \<Longrightarrow> e \<noteq> DidMount \<Longrightarrow> step c e = c"
  by (cases e)
     (simp_all add: setStateSafely_unmounted componentWillUnmount_def
        loadNotifications_call_def loadNotifications_resolved_def loadNotifications_rejected_def
        handleMarkRead_call_def handleMarkRead_resolved_def handleMarkRead_rejected_def
        handleMarkAll_call_def handleMarkAll_resolved_def handleMarkAll_rejected_def
        handleAcceptInvitation_call_def handleAcceptInvitation_resolved_def
        handleAcceptInvitation_rejected_def)

lemma run_unmounted: "\<not> isMounted c \<Longrightarrow> DidMount \<notin> set es \<Longrightarrow> run c es = c"
  by (induction es arbitrary: c) (auto simp: step_unmounted)

text \<open>
  Claim C10. Every state update of the component goes through \<open>setStateSafely\<close>, which
  does nothing when \<open>isMounted\<close> is false. So once \<open>componentWillUnmount\<close> has run,
  whatever runs afterwards (any part of any handler, in particular the pending
  completions, resolved or rejected, and the two alert toggles) leaves the state as it
  was: the component after any such sequence of events is the unmounted component
  itself. (\<open>componentDidMount\<close>, which sets the flag again, is not called on an
  unmounted instance.)
\<close>

theorem unmounted_state_frozen:
  assumes "DidMount \<notin> set es"
  shows "run (componentWillUnmount c) es = componentWillUnmount c
       \<and> state (run (componentWillUnmount c) es) = state c
       \<and> \<not> isMounted (run (componentWillUnmount c) es)"
  using assms by (simp add: run_unmounted componentWillUnmount_def)

text \<open>
  Witness for C10: the page is unmounted while a mark-read and an accept are
  outstanding; both complete afterwards, and a late fetch resolves with an empty list.
\<close>

theorem unmounted_state_frozen_witness:
  "DidMount \<notin> set example_completions
   \<and> state (run (componentWillUnmount example_in_flight) example_completions)
       = state example_in_flight
   \<and> notifications (state (run (componentWillUnmount example_in_flight) example_completions))
       = [example_invitation, example_mention, example_task]"
proof -
  have h: "DidMount \<notin> set example_completions"
    by (simp add: example_completions_def)
  note frozen = unmounted_state_frozen [OF h, of example_in_flight]
  then have same:
    "state (run (componentWillUnmount example_in_flight) example_completions)
       = state example_in_flight"
    by blast
  have "notifications (state example_in_flight)
          = [example_invitation, example_mention, example_task]"
    by (simp add: example_in_flight_def)
  with same h show ?thesis
    by simp
qed

section \<open>A successful mark-read touches one flag (C9)\<close>

text \<open>
  Claim C9. When the mark-read call for \<open>notification\<close> resolves, the list keeps its
  length and order; every notification with another id is the same object as before,
  and every notification agrees with its old value in all fields other than
  \<open>is_read\<close>, named or not (the two are equal once \<open>is_read\<close> is overwritten in
  both). On a mounted component the notifications with that id are read afterwards.
  Of the rest of the state only the in-flight set changes: it loses the id.
\<close>

theorem handleMarkRead_frame:
  "let s = state c; s' = state (handleMarkRead_resolved c notification) in
     length (notifications s') = length (notifications s)
     \<and> (\<forall>k < length (notifications s).
           (id_n (notifications s ! k) \<noteq> id_n notification \<longrightarrow>
              notifications s' ! k = notifications s ! k)
           \<and> (notifications s' ! k)\<lparr>is_read := True\<rparr> = (notifications s ! k)\<lparr>is_read := True\<rparr>
           \<and> (isMounted c \<and> id_n (notifications s ! k) = id_n notification \<longrightarrow>
                is_read (notifications s' ! k)))
     \<and> loading s' = loading s \<and> error s' = error s \<and> info s' = info s
     \<and> acceptingId s' = acceptingId s \<and> markAllInProgress s' = markAllInProgress s
     \<and> markingIds s' = (if isMounted c then markingIds s - {id_n notification} else markingIds s)
     \<and> state.more s' = state.more s"
  by (simp add: handleMarkRead_resolved_def state_setStateSafely Let_def)

text \<open>
  Witness for C9: marking the task (id 3, the third entry) leaves the first entry, the
  invitation with id 1, alone and changes the third in \<open>is_read\<close> only.
\<close>

theorem handleMarkRead_frame_witness:
  "isMounted example_in_flight
   \<and> (2::nat) < length (notifications (state example_in_flight))
   \<and> id_n (notifications (state example_in_flight) ! 0) \<noteq> id_n example_task
   \<and> id_n (notifications (state example_in_flight) ! 2) = id_n example_task
   \<and> \<not> is_read (notifications (state example_in_flight) ! 2)
   \<and> notifications (state (handleMarkRead_resolved example_in_flight example_task)) ! 0
       = notifications (state example_in_flight) ! 0
   \<and> (notifications (state (handleMarkRead_resolved example_in_flight example_task)) ! 2)
        \<lparr>is_read := True\<rparr>
       = (notifications (state example_in_flight) ! 2)\<lparr>is_read := True\<rparr>
   \<and> is_read (notifications (state (handleMarkRead_resolved example_in_flight example_task)) ! 2)
   \<and> acceptingId (state (handleMarkRead_resolved example_in_flight example_task))
       = acceptingId (state example_in_flight)"
proof -
  have before:
    "isMounted example_in_flight"
    "(2::nat) < length (notifications (state example_in_flight))"
    "id_n (notifications (state example_in_flight) ! 0) \<noteq> id_n example_task"
    "id_n (notifications (state example_in_flight) ! 2) = id_n example_task"
    "\<not> is_read (notifications (state example_in_flight) ! 2)"
    by (simp_all add: example_in_flight_def example_invitation_def example_task_def)
  have less: "(0::nat) < length (notifications (state example_in_flight))"
    using before(2) by linarith
  note frame = handleMarkRead_frame [of example_in_flight example_task, unfolded Let_def]
  from frame less before(3) have first:
    "notifications (state (handleMarkRead_resolved example_in_flight example_task)) ! 0
       = notifications (state example_in_flight) ! 0"
    by blast
  from frame before(1,2,4) have third:
    "(notifications (state (handleMarkRead_resolved example_in_flight example_task)) ! 2)
        \<lparr>is_read := True\<rparr>
       = (notifications (state example_in_flight) ! 2)\<lparr>is_read := True\<rparr>"
    "is_read (notifications (state (handleMarkRead_resolved example_in_flight example_task)) ! 2)"
    by blast+
  from frame have rest:
    "acceptingId (state (handleMarkRead_resolved example_in_flight example_task))
       = acceptingId (state example_in_flight)"
    by blast
  from before first third rest show ?thesis
    by blast
qed

section \<open>Accepting implies read and accepted (C3)\<close>

text \<open>
  Claim C3, as stated, fails when the page is left while the call is outstanding. On
  the example page the accept of the invitation (id 1, the first entry) is issued, the
  component is unmounted, and then the call resolves: the update goes through
  \<open>setStateSafely\<close> and is dropped, so the local record is still unread and its
  invitation still not accepted.
\<close>

theorem accept_resolved_after_unmount:
  "snd (handleAcceptInvitation_call example_component example_invitation)
     = Some (AcceptProjectInvitation 1)
   \<and> id_n (notifications
        (state (run example_component
           [AcceptCall example_invitation, WillUnmount, AcceptResolved example_invitation])) ! 0)
       = id_n example_invitation
   \<and> \<not> is_read (notifications
        (state (run example_component
           [AcceptCall example_invitation, WillUnmount, AcceptResolved example_invitation])) ! 0)
   \<and> invitation (notifications
        (state (run example_component
           [AcceptCall example_invitation, WillUnmount, AcceptResolved example_invitation])) ! 0)
       = Some \<lparr>accepted = False\<rparr>"
  by (simp add: example_component_def example_invitation_def
        handleAcceptInvitation_call_def handleAcceptInvitation_resolved_def
        componentWillUnmount_def setStateSafely_def)

text \<open>
  Claim C3, amended. When the accept call for \<open>notification\<close> resolves while the
  component is mounted, the list keeps its length and its ids, and every local record
  with the id of \<open>notification\<close> has \<open>is_read\<close> true afterwards; if the record
  carried an invitation, it still carries one and that invitation is accepted, and if
  it carried none it still carries none.
\<close>

theorem accept_sets_read_and_accepted:
  assumes "isMounted c"
  shows "let s = state c; s' = state (handleAcceptInvitation_resolved c notification) in
           length (notifications s') = length (notifications s)
           \<and> (\<forall>k < length (notifications s).
                 id_n (notifications s' ! k) = id_n (notifications s ! k)
                 \<and> (id_n (notifications s ! k) = id_n notification \<longrightarrow>
                      is_read (notifications s' ! k)
                      \<and> (case invitation (notifications s ! k) of
                            None \<Rightarrow> invitation (notifications s' ! k) = None
                          | Some i \<Rightarrow>
                              (case invitation (notifications s' ! k) of
                                 None \<Rightarrow> False
                               | Some i' \<Rightarrow> accepted i'))))"
  using assms
  by (auto simp: handleAcceptInvitation_resolved_def state_setStateSafely Let_def
        accept_locally_def split: option.splits)

text \<open>
  Witness for C3: the invitation (id 1, the first entry, unread and not accepted) is
  read and accepted after the accept call resolved.
\<close>

theorem accept_sets_read_and_accepted_witness:
  "isMounted example_in_flight
   \<and> (0::nat) < length (notifications (state example_in_flight))
   \<and> id_n (notifications (state example_in_flight) ! 0) = id_n example_invitation
   \<and> invitation (notifications (state example_in_flight) ! 0) = Some \<lparr>accepted = False\<rparr>
   \<and> \<not> is_read (notifications (state example_in_flight) ! 0)
   \<and> is_read (notifications
                (state (handleAcceptInvitation_resolved example_in_flight example_invitation)) ! 0)
   \<and> (case invitation (notifications
                (state (handleAcceptInvitation_resolved example_in_flight example_invitation)) ! 0)
       of None \<Rightarrow> False | Some i' \<Rightarrow> accepted i')"
proof -
  have m: "isMounted example_in_flight"
    by (simp add: example_in_flight_def)
  have before:
    "(0::nat) < length (notifications (state example_in_flight))"
    "id_n (notifications (state example_in_flight) ! 0) = id_n example_invitation"
    "invitation (notifications (state example_in_flight) ! 0) = Some \<lparr>accepted = False\<rparr>"
    "\<not> is_read (notifications (state example_in_flight) ! 0)"
    by (simp_all add: example_in_flight_def example_invitation_def)
  note after = accept_sets_read_and_accepted [OF m, of example_invitation, unfolded Let_def]
  then have
    "id_n (notifications (state example_in_flight) ! 0) = id_n example_invitation \<longrightarrow>
       is_read (notifications
                 (state (handleAcceptInvitation_resolved example_in_flight example_invitation)) ! 0)
       \<and> (case invitation (notifications (state example_in_flight) ! 0) of
             None \<Rightarrow>
               invitation (notifications
                 (state (handleAcceptInvitation_resolved example_in_flight example_invitation)) ! 0)
               = None
           | Some i \<Rightarrow>
               (case invitation (notifications
                 (state (handleAcceptInvitation_resolved example_in_flight example_invitation)) ! 0)
                of None \<Rightarrow> False | Some i' \<Rightarrow> accepted i'))"
    using before(1) by blast
  with m before show ?thesis
    by simp
qed

section \<open>A failed call changes no notification (C8)\<close>

text \<open>
  Claim C8, as stated, fails when the page is left while the call is outstanding. On
  the example page the mark-read of the task (id 3) is issued, the component is
  unmounted, and then the call is rejected: 3 is still in \<open>markingIds\<close>, no error is
  stored and no alert is shown. Likewise for a rejected accept of the invitation
  (id 1): \<open>acceptingId\<close> is still 1 and no error is stored.
\<close>

theorem rejected_after_unmount_stays_in_flight:
  "snd (handleMarkRead_call example_component example_task) = Some (MarkNotificationRead 3)
   \<and> id_n example_task
       \<in> markingIds (state (run example_component
            [MarkReadCall example_task, WillUnmount,
             MarkReadRejected example_task (Some ''Not found.'')]))
   \<and> error (state (run example_component
            [MarkReadCall example_task, WillUnmount,
             MarkReadRejected example_task (Some ''Not found.'')])) = None
   \<and> alerts (state (run example_component
            [MarkReadCall example_task, WillUnmount,
             MarkReadRejected example_task (Some ''Not found.'')])) = []
   \<and> acceptingId (state (run example_component
            [AcceptCall example_invitation, WillUnmount,
             AcceptRejected example_invitation (Some ''Not found.'')]))
       = Some (id_n example_invitation)
   \<and> error (state (run example_component
            [AcceptCall example_invitation, WillUnmount,
             AcceptRejected example_invitation (Some ''Not found.'')])) = None"
  by (simp add: example_component_def example_invitation_def example_task_def
        handleMarkRead_call_def handleMarkRead_rejected_def
        handleAcceptInvitation_call_def handleAcceptInvitation_rejected_def
        componentWillUnmount_def setStateSafely_def alerts_def alert_def)

text \<open>
  Claim C8, amended. When the mark-read call or the accept call is rejected, the list
  of notifications is what it was (no flag is flipped), and run as a whole with a
  rejected call either handler ends with the list it started with. If the component
  is mounted when the call is rejected, the id is no longer in flight afterwards (it
  is removed from \<open>markingIds\<close>, or \<open>acceptingId\<close> is reset), and the error
  message, which is never empty, is stored in \<open>error\<close> and so shown as a \<open>danger\<close>
  alert, while \<open>info\<close>, the source of the \<open>success\<close> alert, is not written.
\<close>

theorem rejected_call_rolls_back:
  "notifications (state (handleMarkRead_rejected c notification detail))
     = notifications (state c)
   \<and> notifications (state (handleAcceptInvitation_rejected c notification detail))
       = notifications (state c)
   \<and> notifications (state (fst (handleMarkRead c notification (Rejected detail))))
       = notifications (state c)
   \<and> notifications (state (fst (handleAcceptInvitation c notification (Rejected detail))))
       = notifications (state c)
   \<and> (isMounted c \<longrightarrow>
        (let s = state c;
             r = state (handleMarkRead_rejected c notification detail);
             msg = detail_or detail ''Unable to mark notification as read.'' in
           id_n notification \<notin> markingIds r
           \<and> error r = Some msg \<and> (danger, msg) \<in> set (alerts r)
           \<and> info r = info s)
        \<and> (let s = state c;
                r = state (handleAcceptInvitation_rejected c notification detail);
                msg = detail_or detail ''Unable to accept invitation.'' in
              acceptingId r = None
              \<and> error r = Some msg \<and> (danger, msg) \<in> set (alerts r)
              \<and> info r = info s))"
  by (simp add: handleMarkRead_rejected_def handleAcceptInvitation_rejected_def
        handleMarkRead_def handleAcceptInvitation_def handleMarkRead_call_def
        handleAcceptInvitation_call_def isMounted_setStateSafely
        state_setStateSafely Let_def alerts_def alert_danger_shown detail_or_nonempty)

text \<open>
  Witness for C8: with a mark-read of 3 and an accept of 1 outstanding on the mounted
  page, the mark-read and the accept both fail with the server's detail.
\<close>

theorem rejected_call_rolls_back_witness:
  "isMounted example_in_flight
   \<and> notifications (state (handleMarkRead_rejected example_in_flight example_task
                              (Some ''Not found.'')))
       = [example_invitation, example_mention, example_task]
   \<and> id_n example_task
       \<notin> markingIds (state (handleMarkRead_rejected example_in_flight example_task
                               (Some ''Not found.'')))
   \<and> error (state (handleMarkRead_rejected example_in_flight example_task
                      (Some ''Not found.''))) = Some ''Not found.''
   \<and> (danger, ''Not found.'')
       \<in> set (alerts (state (handleMarkRead_rejected example_in_flight example_task
                               (Some ''Not found.''))))
   \<and> acceptingId (state (handleAcceptInvitation_rejected example_in_flight example_invitation
                            (Some ''Not found.''))) = None"
proof -
  have m: "isMounted example_in_flight"
    by (simp add: example_in_flight_def)
  have msg: "detail_or (Some ''Not found.'') ''Unable to mark notification as read.''
               = ''Not found.''"
    by (simp add: detail_or_def)
  note rolled = rejected_call_rolls_back
    [where c = example_in_flight and notification = example_task
       and detail = "Some ''Not found.''", unfolded Let_def msg]
  note rolled' = rejected_call_rolls_back
    [where c = example_in_flight and notification = example_invitation
       and detail = "Some ''Not found.''", unfolded Let_def]
  from rolled have
    "notifications (state (handleMarkRead_rejected example_in_flight example_task
                             (Some ''Not found.'')))
       = notifications (state example_in_flight)"
    by blast
  moreover have "notifications (state example_in_flight)
       = [example_invitation, example_mention, example_task]"
    by (simp add: example_in_flight_def)
  moreover from rolled m have
    "id_n example_task
       \<notin> markingIds (state (handleMarkRead_rejected example_in_flight example_task
                               (Some ''Not found.'')))"
    "error (state (handleMarkRead_rejected example_in_flight example_task
                      (Some ''Not found.''))) = Some ''Not found.''"
    "(danger, ''Not found.'')
       \<in> set (alerts (state (handleMarkRead_rejected example_in_flight example_task
                               (Some ''Not found.''))))"
    by blast+
  moreover from rolled' m have
    "acceptingId (state (handleAcceptInvitation_rejected example_in_flight example_invitation
                           (Some ''Not found.''))) = None"
    by blast
  ultimately show ?thesis
    using m by simp
qed

section \<open>Marking a read notification again (C5)\<close>

text \<open>
  Claim C5, as stated, fails in its last part when the page is left while the call is
  outstanding. On the example page the mark-read of the unread task (id 3, the third
  entry) is issued, the component is unmounted, and then the call resolves: the update
  is dropped, so after this successful application the local record is still unread.
\<close>

theorem markRead_resolved_after_unmount:
  "snd (handleMarkRead_call example_component example_task) = Some (MarkNotificationRead 3)
   \<and> id_n (notifications
        (state (run example_component
           [MarkReadCall example_task, WillUnmount, MarkReadResolved example_task])) ! 2)
       = id_n example_task
   \<and> \<not> is_read (notifications
        (state (run example_component
           [MarkReadCall example_task, WillUnmount, MarkReadResolved example_task])) ! 2)"
  by (simp add: example_component_def example_task_def
        handleMarkRead_call_def handleMarkRead_resolved_def
        componentWillUnmount_def setStateSafely_def)

text \<open>
  Claim C5, amended. \<open>handleMarkRead\<close> on a notification whose \<open>is_read\<close> is true
  issues no request and changes nothing, whatever the service would have answered, and
  two successful applications of \<open>handleMarkRead\<close> to the same notification leave
  the component as one does. On a mounted component, after one successful
  \<open>handleMarkRead\<close> of a notification of the list, the record at its position is
  read, and a second \<open>handleMarkRead\<close> of that record is the no-op.
\<close>

theorem handleMarkRead_idempotent:
  "(is_read notification \<longrightarrow> handleMarkRead c notification r = (c, None))
   \<and> (let c1 = fst (handleMarkRead c notification (Resolved ())) in
        fst (handleMarkRead c1 notification (Resolved ())) = c1
        \<and> (isMounted c \<longrightarrow>
             (\<forall>k < length (notifications (state c)).
                notifications (state c) ! k = notification \<longrightarrow>
                  is_read (notifications (state c1) ! k)
                  \<and> handleMarkRead c1 (notifications (state c1) ! k) r = (c1, None))))"
  by (auto simp: handleMarkRead_def handleMarkRead_call_def handleMarkRead_resolved_def
        setStateSafely_def Let_def)

text \<open>
  Witness for C5: the mention (id 2) is read already, so marking it does nothing; the
  task (id 3, the third entry) is unread, is read after one successful run on the
  mounted page, and a second run on the updated record does nothing.
\<close>

theorem handleMarkRead_idempotent_witness:
  "isMounted example_component
   \<and> is_read example_mention
   \<and> handleMarkRead example_component example_mention (Resolved ())
       = (example_component, None)
   \<and> (2::nat) < length (notifications (state example_component))
   \<and> notifications (state example_component) ! 2 = example_task
   \<and> \<not> is_read example_task
   \<and> fst (handleMarkRead (fst (handleMarkRead example_component example_task (Resolved ())))
             example_task (Resolved ()))
       = fst (handleMarkRead example_component example_task (Resolved ()))
   \<and> is_read (notifications
                (state (fst (handleMarkRead example_component example_task (Resolved ())))) ! 2)
   \<and> handleMarkRead (fst (handleMarkRead example_component example_task (Resolved ())))
        (notifications
           (state (fst (handleMarkRead example_component example_task (Resolved ())))) ! 2)
        (Resolved ())
       = (fst (handleMarkRead example_component example_task (Resolved ())), None)"
proof -
  have m: "isMounted example_component"
    by (simp add: example_component_def)
  have before:
    "is_read example_mention"
    "(2::nat) < length (notifications (state example_component))"
    "notifications (state example_component) ! 2 = example_task"
    "\<not> is_read example_task"
    by (simp_all add: example_component_def example_mention_def example_task_def)
  from handleMarkRead_idempotent
    [where c = example_component and notification = example_mention and r = "Resolved ()"]
    before(1)
  have noop: "handleMarkRead example_component example_mention (Resolved ())
                = (example_component, None)"
    by blast
  note idem = handleMarkRead_idempotent
    [where c = example_component and notification = example_task and r = "Resolved ()",
     unfolded Let_def]
  from idem have same:
    "fst (handleMarkRead (fst (handleMarkRead example_component example_task (Resolved ())))
            example_task (Resolved ()))
       = fst (handleMarkRead example_component example_task (Resolved ()))"
    by blast
  from idem m before(2,3)
  have twice:
    "is_read (notifications
               (state (fst (handleMarkRead example_component example_task (Resolved ())))) ! 2)
     \<and> handleMarkRead (fst (handleMarkRead example_component example_task (Resolved ())))
         (notifications
            (state (fst (handleMarkRead example_component example_task (Resolved ())))) ! 2)
         (Resolved ())
        = (fst (handleMarkRead example_component example_task (Resolved ())), None)"
    by blast
  from m before noop same twice show ?thesis
    by blast
qed

section \<open>No flag is ever reset (C4)\<close>

lemma not_reduced_refl: "not_reduced n n"
  by (simp add: not_reduced_def split: option.splits)

lemma not_reduced_trans: "not_reduced a b \<Longrightarrow> not_reduced b c \<Longrightarrow> not_reduced a c"
  by (auto simp: not_reduced_def split: option.splits)

lemma not_reduced_mark: "not_reduced n (n\<lparr>is_read := True\<rparr>)"
  by (simp add: not_reduced_def split: option.splits)

lemma not_reduced_accept: "not_reduced n (accept_locally n)"
  by (simp add: not_reduced_def accept_locally_def split: option.splits)

lemma list_all2_map_same: "(\<And>x. P x (f x)) \<Longrightarrow> list_all2 P xs (map f xs)"
  by (induction xs) auto

lemma list_all2_not_reduced_refl: "list_all2 not_reduced xs xs"
  by (simp add: list_all2_refl not_reduced_refl)

lemma list_all2_not_reduced_trans:
  "list_all2 not_reduced xs ys \<Longrightarrow> list_all2 not_reduced ys zs \<Longrightarrow> list_all2 not_reduced xs zs"
  by (rule list_all2_trans[of not_reduced not_reduced not_reduced])
     (auto intro: not_reduced_trans)

lemma step_not_reduced:
  "\<not> replaces_list e \<Longrightarrow>
     list_all2 not_reduced (notifications (state c)) (notifications (state (step c e)))"
proof (cases e)
  case (MarkReadResolved n)
  then show ?thesis
    by (auto simp: handleMarkRead_resolved_def state_setStateSafely list_all2_not_reduced_refl
          not_reduced_mark not_reduced_refl intro!: list_all2_map_same)
next
  case MarkAllResolved
  then show ?thesis
    by (auto simp: handleMarkAll_resolved_def state_setStateSafely list_all2_not_reduced_refl
          not_reduced_mark intro!: list_all2_map_same)
next
  case (AcceptResolved n)
  then show ?thesis
    by (auto simp: handleAcceptInvitation_resolved_def state_setStateSafely
          list_all2_not_reduced_refl not_reduced_accept not_reduced_refl
          intro!: list_all2_map_same)
qed (simp_all add: state_setStateSafely list_all2_not_reduced_refl
       componentDidMount_def componentWillUnmount_def
       loadNotifications_call_def loadNotifications_rejected_def
       handleMarkRead_call_def handleMarkRead_rejected_def
       handleMarkAll_call_def handleMarkAll_rejected_def
       handleAcceptInvitation_call_def handleAcceptInvitation_rejected_def)

lemma run_not_reduced:
  "\<forall>e \<in> set es. \<not> replaces_list e \<Longrightarrow>
     list_all2 not_reduced (notifications (state c)) (notifications (state (run c es)))"
proof (induction es arbitrary: c)
  case Nil
  then show ?case by (simp add: list_all2_not_reduced_refl)
next
  case (Cons e es)
  have "list_all2 not_reduced (notifications (state c)) (notifications (state (step c e)))"
    using Cons.prems by (simp add: step_not_reduced)
  moreover have "list_all2 not_reduced (notifications (state (step c e)))
                   (notifications (state (run (step c e) es)))"
    using Cons.prems by (intro Cons.IH) simp
  ultimately show ?case
    by (auto intro: list_all2_not_reduced_trans)
qed

text \<open>
  Claim C4. Take the component in any state \<open>c\<close> and let any sequence of events run
  that contains no resolved fetch: the parts of \<open>handleMarkRead\<close>, \<open>handleMarkAll\<close>
  and \<open>handleAcceptInvitation\<close> in any interleaving, on any notifications, resolved or
  rejected (and mounting, unmounting and the toggles as well). Then the list keeps its
  length, and at every position the notification afterwards has the same id, is read
  if it was read before, and has an accepted invitation if it had one before. Since
  \<open>c\<close> is arbitrary, this holds between any two moments of a run.
\<close>

theorem flags_never_reset:
  assumes "\<forall>e \<in> set es. \<not> replaces_list e"
  shows "length (notifications (state (run c es))) = length (notifications (state c))
       \<and> (\<forall>k < length (notifications (state c)).
             not_reduced (notifications (state c) ! k) (notifications (state (run c es)) ! k))"
  using run_not_reduced [OF assms, of c]
  by (simp add: list_all2_conv_all_nth)

text \<open>
  Witness for C4: nine events of the three handlers, interleaved, with a rejected
  accept followed by a resolved one, on the page where the invitation (first entry) is
  already read and accepted. It stays read and accepted.
\<close>

theorem flags_never_reset_witness:
  "list_all (\<lambda>e. \<not> replaces_list e) example_events
   \<and> (0::nat) < length (notifications (state example_after_accept))
   \<and> is_read (notifications (state example_after_accept) ! 0)
   \<and> invitation (notifications (state example_after_accept) ! 0) = Some \<lparr>accepted = True\<rparr>
   \<and> is_read (notifications (state (run example_after_accept example_events)) ! 0)
   \<and> (case invitation (notifications (state (run example_after_accept example_events)) ! 0)
       of None \<Rightarrow> False | Some i' \<Rightarrow> accepted i')"
proof -
  have h: "\<forall>e \<in> set example_events. \<not> replaces_list e"
    by (simp add: example_events_def)
  have before:
    "(0::nat) < length (notifications (state example_after_accept))"
    "is_read (notifications (state example_after_accept) ! 0)"
    "invitation (notifications (state example_after_accept) ! 0) = Some \<lparr>accepted = True\<rparr>"
    by (simp_all add: example_after_accept_def example_joined_def)
  from flags_never_reset [OF h, of example_after_accept] before(1)
  have "not_reduced (notifications (state example_after_accept) ! 0)
          (notifications (state (run example_after_accept example_events)) ! 0)"
    by blast
  then have
    "is_read (notifications (state (run example_after_accept example_events)) ! 0)"
    "case invitation (notifications (state (run example_after_accept example_events)) ! 0)
       of None \<Rightarrow> False | Some i' \<Rightarrow> accepted i'"
    using before(2,3) by (simp_all add: not_reduced_def)
  with h before show ?thesis
    by (simp add: list_all_iff)
qed

section \<open>Duplicate commands for an item in flight (C2)\<close>

text \<open>
  Claim C2, as stated, fails on the handlers. \<open>handleMarkRead\<close> tests only
  \<open>is_read\<close> of its argument and \<open>handleAcceptInvitation\<close> tests nothing: with 3 in
  \<open>markingIds\<close> the mark-read of notification 3 still issues its request, and with
  \<open>acceptingId\<close> equal to 1 the accept of notification 1 still issues its request.
\<close>

theorem handlers_ignore_in_flight:
  "id_n example_task \<in> markingIds (state example_in_flight)
   \<and> snd (handleMarkRead_call example_in_flight example_task)
       = Some (MarkNotificationRead 3)
   \<and> acceptingId (state example_in_flight) = Some (id_n example_invitation)
   \<and> snd (handleAcceptInvitation_call example_in_flight example_invitation)
       = Some (AcceptProjectInvitation 1)"
  by (simp add: example_in_flight_def example_task_def example_invitation_def
        handleMarkRead_call_def handleAcceptInvitation_call_def)

text \<open>
  Claim C2, amended. The duplicate is stopped where the buttons are rendered: for a
  notification whose id is in \<open>markingIds\<close>, every mark-read button that
  \<open>renderNotificationActions\<close> renders is disabled, and for the notification whose id
  is \<open>acceptingId\<close>, the accept button is disabled; a click on such a button runs no
  handler, so it issues no request and leaves the component unchanged.
\<close>

theorem in_flight_buttons_disabled:
  assumes "b \<in> set (renderNotificationActions (state c) notification)"
    and "(onClick b = MarkRead \<and> id_n notification \<in> markingIds (state c))
         \<or> (onClick b = AcceptInvitation \<and> acceptingId (state c) = Some (id_n notification))"
  shows "disabled b \<and> click c notification b = (c, None)"
  using assms
  by (auto simp: renderNotificationActions_def click_def Let_def split: if_splits)

text \<open>
  Witness for C2: the accept button rendered for the pending invitation (id 1) while
  its accept is outstanding, and the mark-read button rendered for the task (id 3)
  while it is being marked.
\<close>

theorem in_flight_buttons_disabled_witness:
  "\<lparr>onClick = AcceptInvitation, disabled = True\<rparr>
     \<in> set (renderNotificationActions (state example_in_flight) example_invitation)
   \<and> acceptingId (state example_in_flight) = Some (id_n example_invitation)
   \<and> click example_in_flight example_invitation \<lparr>onClick = AcceptInvitation, disabled = True\<rparr>
       = (example_in_flight, None)
   \<and> \<lparr>onClick = MarkRead, disabled = True\<rparr>
     \<in> set (renderNotificationActions (state example_in_flight) example_task)
   \<and> id_n example_task \<in> markingIds (state example_in_flight)
   \<and> click example_in_flight example_task \<lparr>onClick = MarkRead, disabled = True\<rparr>
       = (example_in_flight, None)"
proof -
  have rendered:
    "\<lparr>onClick = AcceptInvitation, disabled = True\<rparr>
       \<in> set (renderNotificationActions (state example_in_flight) example_invitation)"
    "\<lparr>onClick = MarkRead, disabled = True\<rparr>
       \<in> set (renderNotificationActions (state example_in_flight) example_task)"
    by (simp_all add: renderNotificationActions_def example_in_flight_def
          example_invitation_def example_task_def)
  have flight:
    "acceptingId (state example_in_flight) = Some (id_n example_invitation)"
    "id_n example_task \<in> markingIds (state example_in_flight)"
    by (simp_all add: example_in_flight_def example_invitation_def example_task_def)
  have "onClick \<lparr>onClick = AcceptInvitation, disabled = True\<rparr> = AcceptInvitation"
    "onClick \<lparr>onClick = MarkRead, disabled = True\<rparr> = MarkRead"
    by simp_all
  with flight have which:
    "(onClick \<lparr>onClick = AcceptInvitation, disabled = True\<rparr> = MarkRead
        \<and> id_n example_invitation \<in> markingIds (state example_in_flight))
     \<or> (onClick \<lparr>onClick = AcceptInvitation, disabled = True\<rparr> = AcceptInvitation
        \<and> acceptingId (state example_in_flight) = Some (id_n example_invitation))"
    "(onClick \<lparr>onClick = MarkRead, disabled = True\<rparr> = MarkRead
        \<and> id_n example_task \<in> markingIds (state example_in_flight))
     \<or> (onClick \<lparr>onClick = MarkRead, disabled = True\<rparr> = AcceptInvitation
        \<and> acceptingId (state example_in_flight) = Some (id_n example_task))"
    by blast+
  from in_flight_buttons_disabled [OF rendered(1) which(1)]
    in_flight_buttons_disabled [OF rendered(2) which(2)]
    rendered flight
  show ?thesis
    by blast
qed

section \<open>In flight first, local update on success (C7)\<close>




section \<open>Mark all as read (C6)\<close>









end
